theory Spec2Isabelle
  imports Complex_Main "HOL-Library.Monad_Syntax"
begin

section \<open>Order normalisation and signing (src/src/signer.py)\<close>

text \<open>
  The module under study builds a Polymarket order (\<^verbatim>\<open>Order.__post_init__\<close>), turning a
  price and a size into two base-unit integer amounts, and signs it
  (\<^verbatim>\<open>OrderSigner.sign_order\<close>).

  Numbers. The source computes on Python floats. Here a price or a size is the exact
  rational value it denotes (type \<open>rat\<close>; every finite float is a rational), products are
  exact, and \<^verbatim>\<open>round\<close> is Python's rounding of the exact value, halves going to the even
  neighbour. The binary rounding error of a float product, NaN and the infinities are
  therefore outside this model. Integers are Python's unbounded ints (\<open>int\<close>).
\<close>

subsection \<open>Python built-ins\<close>

text \<open>\<^verbatim>\<open>round(x)\<close>: the nearest integer, a half going to the even neighbour.\<close>

definition py_round :: "rat \<Rightarrow> int" where
  "py_round x =
     (let f = \<lfloor>x\<rfloor>; d = x - of_int f
      in if d < 1 / 2 then f
         else if 1 / 2 < d then f + 1
         else if even f then f else f + 1)"

text \<open>\<^verbatim>\<open>round(x, n)\<close>: the nearest multiple of \<open>10\<^sup>-\<^sup>n\<close>, with the same tie rule.\<close>

definition py_round_nd :: "rat \<Rightarrow> nat \<Rightarrow> rat" where
  "py_round_nd x n = of_int (py_round (x * 10 ^ n)) / 10 ^ n"

text \<open>\<^verbatim>\<open>str(i)\<close> for an int: its decimal digits, with a minus sign when negative.\<close>

definition digit_char :: "nat \<Rightarrow> char" where
  "digit_char d = ''0123456789'' ! (d mod 10)"

fun str_nat :: "nat \<Rightarrow> string" where
  "str_nat n = (if n < 10 then [digit_char n] else str_nat (n div 10) @ [digit_char (n mod 10)])"

declare str_nat.simps [simp del]

definition py_str :: "int \<Rightarrow> string" where
  "py_str i = (if i < 0 then CHR ''-'' # str_nat (nat (- i)) else str_nat (nat i))"

text \<open>\<^verbatim>\<open>s.upper()\<close> on ASCII text: the letters a to z are mapped to A to Z.\<close>

definition upper_char :: "char \<Rightarrow> char" where
  "upper_char c =
     (let n = (of_char c :: nat) in if 97 \<le> n \<and> n \<le> 122 then char_of (n - 32) else c)"

definition upper :: "string \<Rightarrow> string" where
  "upper s = map upper_char s"

text \<open>\<^verbatim>\<open>s.startswith(p)\<close>.\<close>

definition startswith :: "string \<Rightarrow> string \<Rightarrow> bool" where
  "startswith s p = (take (length p) s = p)"

subsection \<open>Errors\<close>

text \<open>
  The three \<^verbatim>\<open>ValueError\<close>s of \<^verbatim>\<open>Order.__post_init__\<close> carry the offending value as the
  source's message does; the \<^verbatim>\<open>ValueError\<close> of \<^verbatim>\<open>OrderSigner.__init__\<close> carries the text of
  the library's exception; \<^verbatim>\<open>SignerError\<close> is what \<^verbatim>\<open>sign_order\<close> raises for any exception
  inside its \<^verbatim>\<open>try\<close> block.
\<close>

datatype error =
    InvalidSide string
  | InvalidPrice rat
  | InvalidSize rat
  | InvalidPrivateKey string
  | SignerError

subsection \<open>The Order dataclass\<close>

text \<open>The constructor arguments, with the defaults of the dataclass fields.\<close>

record order_args =
  arg_token_id :: string
  arg_price :: rat
  arg_size :: rat
  arg_side :: string
  arg_maker :: string
  arg_nonce :: "int option"
  arg_fee_rate_bps :: int
  arg_signature_type :: int
  arg_order_type :: string



text \<open>The object once \<^verbatim>\<open>__post_init__\<close> has run: the fields, updated, and the three derived
  attributes.\<close>

record Order =
  token_id :: string
  price :: rat
  size_field :: rat
  side :: string
  maker :: string
  nonce :: int
  fee_rate_bps :: int
  signature_type :: int
  order_type :: string
  maker_amount :: string
  taker_amount :: string
  side_value :: int

text \<open>
  Lines 93 to 113: the two base-unit integers, before \<^verbatim>\<open>str\<close> is applied to them. The
  arguments are the upper-cased side, the order type, the price already rounded to the
  tick, and the size. The result is (maker amount, taker amount).
\<close>

definition base_amounts :: "string \<Rightarrow> string \<Rightarrow> rat \<Rightarrow> rat \<Rightarrow> int \<times> int" where
  "base_amounts sd ot p sz =
     (let is_market_order = (ot \<in> {''FOK'', ''FAK''})
      in if sd = ''BUY'' then
           if is_market_order then
             (let shares_amount = py_round_nd sz 4;
                  usdc_amount = py_round_nd (shares_amount * p) 2
              in (py_round (usdc_amount * 10 ^ 2) * 10 ^ 4,
                  py_round (shares_amount * 10 ^ 4) * 10 ^ 2))
           else
             (let shares_amount = py_round_nd sz 2;
                  usdc_amount = py_round_nd (shares_amount * p) 4
              in (py_round (usdc_amount * 10 ^ 4) * 10 ^ 2,
                  py_round (shares_amount * 10 ^ 2) * 10 ^ 4))
         else
           (let shares_amount = py_round_nd sz 2;
                usdc_amount = py_round_nd (shares_amount * p) 4
            in (py_round (shares_amount * 10 ^ 2) * 10 ^ 4,
                py_round (usdc_amount * 10 ^ 4) * 10 ^ 2)))"

text \<open>\<^verbatim>\<open>Order.__post_init__\<close>, lines 62 to 115.\<close>

definition post_init :: "order_args \<Rightarrow> error + Order" where
  "post_init a =
     (let sd = upper (arg_side a)
      in if sd \<notin> {''BUY'', ''SELL''} then Inl (InvalidSide sd)
         else if \<not> (0 < arg_price a \<and> arg_price a \<le> 1) then Inl (InvalidPrice (arg_price a))
         else if arg_size a \<le> 0 then Inl (InvalidSize (arg_size a))
         else
           (let n = (case arg_nonce a of None \<Rightarrow> 0 | Some k \<Rightarrow> k);
                p = py_round_nd (arg_price a) 2;
                (m, t) = base_amounts sd (arg_order_type a) p (arg_size a)
            in Inr \<lparr> token_id = arg_token_id a, price = p, size_field = arg_size a,
                     side = sd, maker = arg_maker a, nonce = n,
                     fee_rate_bps = arg_fee_rate_bps a,
                     signature_type = arg_signature_type a,
                     order_type = arg_order_type a,
                     maker_amount = py_str m, taker_amount = py_str t,
                     side_value = (if sd = ''BUY'' then 0 else 1) \<rparr>))"

subsection \<open>Library functions used by the signer\<close>

text \<open>
  The signer calls three libraries that are not part of the repository: \<^verbatim>\<open>eth_account\<close>,
  \<^verbatim>\<open>eth_utils\<close> and \<^verbatim>\<open>random\<close>. Their functions are parameters of the model, collected in
  one record; \<open>None\<close> (or \<open>Inl\<close> with the exception's text) stands for a raised exception.
  \<^verbatim>\<open>int(s)\<close> on a string is a parameter as well: its grammar (surrounding blanks, signs,
  underscores, non-ASCII digits) plays no part in what is proved, so every theorem
  covers whatever it accepts.
\<close>

record domain =
  domain_name :: string
  domain_version :: string
  domain_chainId :: int
  domain_verifyingContract :: "string option"

text \<open>The \<^verbatim>\<open>order_message\<close> dict of \<^verbatim>\<open>sign_order\<close>, the struct that is hashed and signed.\<close>

record order_message =
  msg_salt :: int
  msg_maker :: string
  msg_signer :: string
  msg_taker :: string
  msg_tokenId :: int
  msg_makerAmount :: int
  msg_takerAmount :: int
  msg_expiration :: int
  msg_nonce :: int
  msg_feeRateBps :: int
  msg_side :: int
  msg_signatureType :: int

record ('w, 's) library =
  from_key :: "string \<Rightarrow> string + 'w"
  wallet_address :: "'w \<Rightarrow> string"
  to_checksum_address :: "string \<Rightarrow> string option"
  int_of_str :: "string \<Rightarrow> int option"
  encode_typed_data :: "domain \<Rightarrow> (string \<times> string) list \<Rightarrow> order_message \<Rightarrow> 's option"
  sign_message_hex :: "'w \<Rightarrow> 's \<Rightarrow> string option"

text \<open>
  \<^verbatim>\<open>random.randint(a, b)\<close> returns \<open>a + k\<close> for a \<open>k\<close> below \<open>b + 1 - a\<close> that the generator
  chooses; \<open>r\<close> is the generator's draw, reduced into that range.
\<close>

definition randint :: "int \<Rightarrow> int \<Rightarrow> nat \<Rightarrow> int" where
  "randint a b r = a + int (r mod nat (b + 1 - a))"

subsection \<open>OrderSigner\<close>

definition ORDER_DOMAIN :: domain where
  "ORDER_DOMAIN =
     \<lparr> domain_name = ''Polymarket CTF Exchange'', domain_version = ''1'',
       domain_chainId = 137,
       domain_verifyingContract = Some ''0x4bFb41d5B3570DeFd03C39a9A4D8dE6Bd8B8982E'' \<rparr>"

definition ORDER_TYPES :: "(string \<times> string) list" where
  "ORDER_TYPES =
     [(''salt'', ''uint256''), (''maker'', ''address''), (''signer'', ''address''),
      (''taker'', ''address''), (''tokenId'', ''uint256''), (''makerAmount'', ''uint256''),
      (''takerAmount'', ''uint256''), (''expiration'', ''uint256''), (''nonce'', ''uint256''),
      (''feeRateBps'', ''uint256''), (''side'', ''uint8''), (''signatureType'', ''uint8'')]"

definition zero_address :: string where
  "zero_address = ''0x0000000000000000000000000000000000000000''"

record 'w OrderSigner =
  wallet :: 'w
  address :: string

text \<open>\<^verbatim>\<open>OrderSigner.__init__\<close>, lines 174 to 192.\<close>

definition OrderSigner_init :: "('w, 's) library \<Rightarrow> string \<Rightarrow> error + 'w OrderSigner" where
  "OrderSigner_init lib private_key =
     (let pk = (if startswith private_key ''0x'' then drop 2 private_key else private_key)
      in case from_key lib (''0x'' @ pk) of
           Inl e \<Rightarrow> Inl (InvalidPrivateKey e)
         | Inr w \<Rightarrow> Inr \<lparr> wallet = w, address = wallet_address lib w \<rparr>)"

text \<open>A JSON-serialisable value: the payload distinguishes integers from strings.\<close>

datatype json = JInt int | JStr string | JObj "(string \<times> json) list"

text \<open>Lines 287 to 302: the salt and the message dict. Any exception (a malformed address,
  a token id or an amount that is not an integer literal) leaves the \<^verbatim>\<open>try\<close> block.\<close>

definition build_order_message ::
  "('w, 's) library \<Rightarrow> 'w OrderSigner \<Rightarrow> nat \<Rightarrow> Order \<Rightarrow> order_message option" where
  "build_order_message lib self r order =
     (let salt = randint 1 (2 ^ 40 - 1) r
      in do {
        mk \<leftarrow> to_checksum_address lib (maker order);
        sg \<leftarrow> to_checksum_address lib (address self);
        tk \<leftarrow> to_checksum_address lib zero_address;
        tid \<leftarrow> int_of_str lib (token_id order);
        ma \<leftarrow> int_of_str lib (maker_amount order);
        ta \<leftarrow> int_of_str lib (taker_amount order);
        Some \<lparr> msg_salt = salt, msg_maker = mk, msg_signer = sg, msg_taker = tk,
               msg_tokenId = tid, msg_makerAmount = ma, msg_takerAmount = ta,
               msg_expiration = 0, msg_nonce = nonce order,
               msg_feeRateBps = fee_rate_bps order, msg_side = side_value order,
               msg_signatureType = signature_type order \<rparr>
      })"

text \<open>Lines 316 to 332: the dict that is returned.\<close>

definition order_payload :: "order_message \<Rightarrow> Order \<Rightarrow> string \<Rightarrow> (string \<times> json) list" where
  "order_payload m order sig =
     [(''order'', JObj
        [(''salt'', JInt (msg_salt m)),
         (''maker'', JStr (msg_maker m)),
         (''signer'', JStr (msg_signer m)),
         (''taker'', JStr (msg_taker m)),
         (''tokenId'', JStr (py_str (msg_tokenId m))),
         (''makerAmount'', JStr (py_str (msg_makerAmount m))),
         (''takerAmount'', JStr (py_str (msg_takerAmount m))),
         (''expiration'', JStr (py_str (msg_expiration m))),
         (''nonce'', JStr (py_str (msg_nonce m))),
         (''feeRateBps'', JStr (py_str (msg_feeRateBps m))),
         (''side'', JStr (side order)),
         (''signatureType'', JInt (msg_signatureType m)),
         (''signature'', JStr (''0x'' @ sig))])]"

text \<open>\<^verbatim>\<open>OrderSigner.sign_order\<close>, lines 267 to 335.\<close>

definition sign_order ::
  "('w, 's) library \<Rightarrow> 'w OrderSigner \<Rightarrow> nat \<Rightarrow> Order \<Rightarrow> error + (string \<times> json) list" where
  "sign_order lib self r order =
     (case do {
             m \<leftarrow> build_order_message lib self r order;
             signable \<leftarrow> encode_typed_data lib ORDER_DOMAIN ORDER_TYPES m;
             sig \<leftarrow> sign_message_hex lib (wallet self) signable;
             Some (order_payload m order sig)
           } of
        None \<Rightarrow> Inl SignerError
      | Some p \<Rightarrow> Inr p)"


text \<open>Reading a field of the \<^verbatim>\<open>"order"\<close> object of a payload.\<close>

definition order_field :: "(string \<times> json) list \<Rightarrow> string \<Rightarrow> json option" where
  "order_field p f = (case map_of p ''order'' of Some (JObj kv) \<Rightarrow> map_of kv f | _ \<Rightarrow> None)"

subsection \<open>The specification's normalisation algorithm\<close>












text \<open>The inputs the specification calls valid.\<close>

definition valid_input :: "order_args \<Rightarrow> bool" where
  "valid_input a =
     (arg_side a \<in> {''BUY'', ''SELL''} \<and>
      arg_order_type a \<in> {''GTC'', ''GTD'', ''FOK'', ''FAK''} \<and>
      0 < arg_price a \<and> arg_price a \<le> 1 \<and> 0 < arg_size a)"


text \<open>The integer that a decimal string denotes (what \<^verbatim>\<open>int\<close> gives back on the output of
  \<^verbatim>\<open>str\<close>).\<close>

definition digit_value :: "char \<Rightarrow> nat" where
  "digit_value c = of_char c - 48"

definition nat_of_digits :: "string \<Rightarrow> nat" where
  "nat_of_digits s = foldl (\<lambda>acc c. 10 * acc + digit_value c) 0 s"

definition decimal_value :: "string \<Rightarrow> int" where
  "decimal_value s =
     (case s of
        [] \<Rightarrow> 0
      | c # cs \<Rightarrow> if c = CHR ''-'' then - int (nat_of_digits cs) else int (nat_of_digits s))"




text \<open>A decimal string: digits, after an optional minus sign.\<close>

definition is_digit :: "char \<Rightarrow> bool" where
  "is_digit c = (c \<in> set ''0123456789'')"

definition is_decimal_string :: "string \<Rightarrow> bool" where
  "is_decimal_string s =
     (case s of
        [] \<Rightarrow> False
      | c # cs \<Rightarrow> if c = CHR ''-'' then cs \<noteq> [] \<and> list_all is_digit cs
                else list_all is_digit s)"

definition is_hex_digit :: "char \<Rightarrow> bool" where
  "is_hex_digit c = (c \<in> set ''0123456789abcdefABCDEF'')"

text \<open>A payload field that is a JSON integer \<open>n\<close>, and one that is a JSON string spelling
  the integer \<open>n\<close> in decimal.\<close>

definition int_field :: "(string \<times> json) list \<Rightarrow> string \<Rightarrow> int \<Rightarrow> bool" where
  "int_field p f n = (order_field p f = Some (JInt n))"

definition decimal_field :: "(string \<times> json) list \<Rightarrow> string \<Rightarrow> int \<Rightarrow> bool" where
  "decimal_field p f n =
     (case order_field p f of
        Some (JStr s) \<Rightarrow> is_decimal_string s \<and> decimal_value s = n
      | _ \<Rightarrow> False)"

subsection \<open>Example inputs\<close>

text \<open>The orders of the repository's script \<^verbatim>\<open>test_decimal_precision.py\<close>, side, order type,
  price and size left open.\<close>

definition example_args :: "string \<Rightarrow> string \<Rightarrow> rat \<Rightarrow> rat \<Rightarrow> order_args" where
  "example_args sd ot p sz =
     \<lparr> arg_token_id = ''17677295341284404301684190429353870897397456800894496393305525348207706127476'',
       arg_price = p, arg_size = sz, arg_side = sd,
       arg_maker = ''0x81E16FFAED0357FCB6514F5F59B961Bbf29152a5'',
       arg_nonce = None, arg_fee_rate_bps = 1000, arg_signature_type = 1,
       arg_order_type = ot \<rparr>"

text \<open>The Order that \<open>example_args\<close> yields when the amounts are \<open>m\<close> and \<open>t\<close>.\<close>

definition example_order :: "string \<Rightarrow> string \<Rightarrow> rat \<Rightarrow> rat \<Rightarrow> string \<Rightarrow> string \<Rightarrow> int \<Rightarrow> Order" where
  "example_order sd ot p sz m t sv =
     \<lparr> token_id = ''17677295341284404301684190429353870897397456800894496393305525348207706127476'',
       price = p, size_field = sz, side = sd,
       maker = ''0x81E16FFAED0357FCB6514F5F59B961Bbf29152a5'',
       nonce = 0, fee_rate_bps = 1000, signature_type = 1, order_type = ot,
       maker_amount = m, taker_amount = t, side_value = sv \<rparr>"

text \<open>
  A concrete instance of the library functions, for instantiating the theorems about the
  signer: a wallet is its key, an address is accepted when it has 42 characters, an
  integer literal when it consists of digits, and the signature is a fixed string.
\<close>

definition sample_library :: "(string, order_message) library" where
  "sample_library =
     \<lparr> from_key = (\<lambda>s. if length s = 66 \<and> list_all is_hex_digit (drop 2 s)
                          then Inr s else Inl ''not a private key''),
       wallet_address = (\<lambda>w. ''0x'' @ drop 26 w),
       to_checksum_address = (\<lambda>s. if length s = 42 then Some s else None),
       int_of_str = (\<lambda>s. if s \<noteq> [] \<and> list_all is_digit s
                            then Some (decimal_value s) else None),
       encode_typed_data = (\<lambda>d t m. Some m),
       sign_message_hex = (\<lambda>w m. Some ''1b'') \<rparr>"

definition sample_key :: string where
  "sample_key = ''4c0883a69102937d6231471b5dbb6204fe5129617082792ae468d01a3f362318''"

definition sample_signer :: "string OrderSigner" where
  "sample_signer =
     \<lparr> wallet = ''0x4c0883a69102937d6231471b5dbb6204fe5129617082792ae468d01a3f362318'',
       address = ''0x5dbb6204fe5129617082792ae468d01a3f362318'' \<rparr>"

text \<open>The third order of the script (a FOK SELL at 0.11 for 5.5556 shares) once
  constructed, and the struct that the sample signer signs for it when the generator
  draws 123456789.\<close>

definition sample_order :: Order where
  "sample_order = example_order ''SELL'' ''FOK'' (11 / 100) (13889 / 2500) ''5560000'' ''611600'' 1"

definition sample_message :: order_message where
  "sample_message =
     \<lparr> msg_salt = 123456790,
       msg_maker = ''0x81E16FFAED0357FCB6514F5F59B961Bbf29152a5'',
       msg_signer = ''0x5dbb6204fe5129617082792ae468d01a3f362318'',
       msg_taker = ''0x0000000000000000000000000000000000000000'',
       msg_tokenId = 17677295341284404301684190429353870897397456800894496393305525348207706127476,
       msg_makerAmount = 5560000, msg_takerAmount = 611600, msg_expiration = 0,
       msg_nonce = 0, msg_feeRateBps = 1000, msg_side = 1, msg_signatureType = 1 \<rparr>"

section \<open>Properties\<close>

subsection \<open>Rounding\<close>








subsection \<open>Order construction on valid inputs\<close>

lemma upper_BUY: "upper ''BUY'' = ''BUY''" by code_simp
lemma upper_SELL: "upper ''SELL'' = ''SELL''" by code_simp

lemma post_init_valid:
  assumes "valid_input a"
  shows "post_init a =
     Inr \<lparr> token_id = arg_token_id a, price = py_round_nd (arg_price a) 2,
           size_field = arg_size a, side = arg_side a, maker = arg_maker a,
           nonce = (case arg_nonce a of None \<Rightarrow> 0 | Some k \<Rightarrow> k),
           fee_rate_bps = arg_fee_rate_bps a, signature_type = arg_signature_type a,
           order_type = arg_order_type a,
           maker_amount = py_str (fst (base_amounts (arg_side a) (arg_order_type a)
                                         (py_round_nd (arg_price a) 2) (arg_size a))),
           taker_amount = py_str (snd (base_amounts (arg_side a) (arg_order_type a)
                                         (py_round_nd (arg_price a) 2) (arg_size a))),
           side_value = (if arg_side a = ''BUY'' then 0 else 1) \<rparr>"
proof -
  from assms have sd: "arg_side a = ''BUY'' \<or> arg_side a = ''SELL''"
    and pr: "0 < arg_price a" "arg_price a \<le> 1" and sz: "0 < arg_size a"
    by (simp_all add: valid_input_def)
  from sd have up: "upper (arg_side a) = arg_side a"
    using upper_BUY upper_SELL by auto
  show ?thesis
    using sd pr sz by (auto simp: post_init_def up Let_def split: prod.splits)
qed


lemma example_args_sel:
  "arg_side (example_args sd ot p sz) = sd"
  "arg_order_type (example_args sd ot p sz) = ot"
  "arg_price (example_args sd ot p sz) = p"
  "arg_size (example_args sd ot p sz) = sz"
  by (simp_all add: example_args_def)

lemma valid_example:
  "sd \<in> {''BUY'', ''SELL''} \<Longrightarrow> ot \<in> {''GTC'', ''GTD'', ''FOK'', ''FAK''} \<Longrightarrow>
   0 < p \<Longrightarrow> p \<le> 1 \<Longrightarrow> 0 < sz \<Longrightarrow> valid_input (example_args sd ot p sz)"
  by (simp add: valid_input_def example_args_def)





subsection \<open>The first scenario of the specification\<close>

text \<open>
  A GTC BUY at price 0.70 for 1.47 shares: the two amounts and their decimal strings.
\<close>

lemma str_nat_1029000: "py_str 1029000 = ''1029000''"
  by (simp add: py_str_def str_nat.simps digit_char_def)

lemma str_nat_1470000: "py_str 1470000 = ''1470000''"
  by (simp add: py_str_def str_nat.simps digit_char_def)

lemma scenario1_amounts:
  "base_amounts ''BUY'' ''GTC'' (py_round_nd (7 / 10) 2) (147 / 100) = (1029000, 1470000)"
  by code_simp

lemma scenario1_price: "py_round_nd (7 / 10) 2 = 7 / 10"
  by code_simp

text \<open>
  Claim C5, amended. For the GTC BUY at price 0.70 and size 1.47 the shares stay 1.47,
  the quote is 1.029, the maker amount is 1029000 and the taker amount is 1470000.
\<close>

theorem scenario1_normalized:
  "post_init (example_args ''BUY'' ''GTC'' (7 / 10) (147 / 100)) =
     Inr (example_order ''BUY'' ''GTC'' (7 / 10) (147 / 100) ''1029000'' ''1470000'' 0)"
proof -
  have v: "valid_input (example_args ''BUY'' ''GTC'' (7 / 10) (147 / 100))"
    by (simp add: valid_example)
  show ?thesis
    unfolding post_init_valid [OF v] example_args_sel scenario1_amounts
    by (simp add: example_args_def example_order_def scenario1_price
          str_nat_1029000 str_nat_1470000)
qed

text \<open>
  Claim C5 as stated gives the maker amount 10290000; the constructor does not return
  that value.
\<close>

theorem scenario1_maker_amount_counterexample:
  "map_sum id maker_amount (post_init (example_args ''BUY'' ''GTC'' (7 / 10) (147 / 100)))
     \<noteq> Inr ''10290000''"
proof -
  have v: "valid_input (example_args ''BUY'' ''GTC'' (7 / 10) (147 / 100))"
    by (simp add: valid_example)
  show ?thesis
    unfolding post_init_valid [OF v] example_args_sel scenario1_amounts
    by (simp add: str_nat_1029000)
qed

subsection \<open>Determinism\<close>

text \<open>
  Claim C8. Two constructions that agree on order type, side, price and size give the
  same outcome: the same error, or the same maker amount, taker amount and side code,
  whatever the other fields are.
\<close>

theorem amounts_deterministic:
  assumes "arg_order_type a = arg_order_type b" and "arg_side a = arg_side b"
    and "arg_price a = arg_price b" and "arg_size a = arg_size b"
  shows "map_sum id (\<lambda>ord. (maker_amount ord, taker_amount ord, side_value ord)) (post_init a) =
         map_sum id (\<lambda>ord. (maker_amount ord, taker_amount ord, side_value ord)) (post_init b)"
  using assms by (simp add: post_init_def Let_def split: prod.splits)

theorem amounts_deterministic_witness:
  "example_args ''BUY'' ''FOK'' (61 / 100) (42 / 25) \<noteq>
     (example_args ''BUY'' ''FOK'' (61 / 100) (42 / 25))
       \<lparr> arg_token_id := ''1'', arg_maker := zero_address, arg_nonce := Some 7 \<rparr> \<and>
   map_sum id (\<lambda>ord. (maker_amount ord, taker_amount ord, side_value ord))
     (post_init (example_args ''BUY'' ''FOK'' (61 / 100) (42 / 25))) =
   map_sum id (\<lambda>ord. (maker_amount ord, taker_amount ord, side_value ord))
     (post_init ((example_args ''BUY'' ''FOK'' (61 / 100) (42 / 25))
       \<lparr> arg_token_id := ''1'', arg_maker := zero_address, arg_nonce := Some 7 \<rparr>))"
  using amounts_deterministic [of "example_args ''BUY'' ''FOK'' (61 / 100) (42 / 25)"
      "(example_args ''BUY'' ''FOK'' (61 / 100) (42 / 25))
         \<lparr> arg_token_id := ''1'', arg_maker := zero_address, arg_nonce := Some 7 \<rparr>"]
  by (simp add: example_args_def)

subsection \<open>Failure and range of the constructor\<close>







lemma post_init_ok:
  assumes "upper (arg_side a) \<in> {''BUY'', ''SELL''}"
    and "0 < arg_price a" and "arg_price a \<le> 1" and "0 < arg_size a"
  shows "post_init a =
     Inr \<lparr> token_id = arg_token_id a, price = py_round_nd (arg_price a) 2,
           size_field = arg_size a, side = upper (arg_side a), maker = arg_maker a,
           nonce = (case arg_nonce a of None \<Rightarrow> 0 | Some k \<Rightarrow> k),
           fee_rate_bps = arg_fee_rate_bps a, signature_type = arg_signature_type a,
           order_type = arg_order_type a,
           maker_amount = py_str (fst (base_amounts (upper (arg_side a)) (arg_order_type a)
                                         (py_round_nd (arg_price a) 2) (arg_size a))),
           taker_amount = py_str (snd (base_amounts (upper (arg_side a)) (arg_order_type a)
                                         (py_round_nd (arg_price a) 2) (arg_size a))),
           side_value = (if upper (arg_side a) = ''BUY'' then 0 else 1) \<rparr>"
  using assms by (auto simp: post_init_def Let_def split: prod.splits)









subsection \<open>Decimal strings\<close>

lemma digit_cases:
  assumes "d < (10::nat)"
  shows "d = 0 \<or> d = 1 \<or> d = 2 \<or> d = 3 \<or> d = 4 \<or> d = 5 \<or> d = 6 \<or> d = 7 \<or> d = 8 \<or> d = 9"
  using assms by presburger

lemma digit_value_digit_char: "d < 10 \<Longrightarrow> digit_value (digit_char d) = d"
  using digit_cases [of d] by (auto simp: digit_value_def digit_char_def)

lemma is_digit_digit_char: "is_digit (digit_char d)"
proof -
  have "d mod 10 < 10" by simp
  from digit_cases [OF this] show ?thesis
    by (auto simp: is_digit_def digit_char_def)
qed

lemma digit_char_not_minus: "digit_char d \<noteq> CHR ''-''"
  using is_digit_digit_char [of d] by (auto simp: is_digit_def)

lemma nat_of_digits_snoc:
  "nat_of_digits (s @ [c]) = 10 * nat_of_digits s + digit_value c"
  by (simp add: nat_of_digits_def)

lemma nat_of_digits_str_nat: "nat_of_digits (str_nat n) = n"
proof (induction n rule: str_nat.induct)
  case (1 n)
  show ?case
  proof (cases "n < 10")
    case True
    then show ?thesis
      by (simp add: str_nat.simps [of n] nat_of_digits_def digit_value_digit_char)
  next
    case False
    have "nat_of_digits (str_nat n) =
            10 * nat_of_digits (str_nat (n div 10)) + digit_value (digit_char (n mod 10))"
      using False by (simp add: str_nat.simps [of n] nat_of_digits_snoc)
    also have "\<dots> = 10 * (n div 10) + n mod 10"
      using False by (simp add: "1.IH" digit_value_digit_char)
    finally show ?thesis by simp
  qed
qed

lemma str_nat_digits: "str_nat n \<noteq> [] \<and> list_all is_digit (str_nat n)"
proof (induction n rule: str_nat.induct)
  case (1 n)
  show ?case
  proof (cases "n < 10")
    case True
    then show ?thesis
      by (simp add: str_nat.simps [of n] is_digit_digit_char)
  next
    case False
    then show ?thesis
      using "1.IH" by (simp add: str_nat.simps [of n] is_digit_digit_char)
  qed
qed

lemma str_nat_no_sign: "\<exists>c cs. str_nat n = c # cs \<and> c \<noteq> CHR ''-''"
proof -
  obtain c cs where e: "str_nat n = c # cs"
    using str_nat_digits [of n] by (cases "str_nat n") auto
  have "is_digit c"
    using str_nat_digits [of n] by (simp add: e)
  then have "c \<noteq> CHR ''-''"
    by (auto simp: is_digit_def)
  with e show ?thesis by blast
qed

lemma decimal_value_py_str: "decimal_value (py_str i) = i"
proof (cases "i < 0")
  case True
  then show ?thesis
    by (simp add: py_str_def decimal_value_def nat_of_digits_str_nat)
next
  case False
  obtain c cs where e: "str_nat (nat i) = c # cs" and c: "c \<noteq> CHR ''-''"
    using str_nat_no_sign by blast
  have "decimal_value (str_nat (nat i)) = int (nat_of_digits (str_nat (nat i)))"
    using c by (simp add: decimal_value_def e)
  then show ?thesis
    using False by (simp add: py_str_def nat_of_digits_str_nat)
qed

lemma py_str_inj:
  assumes "py_str i = py_str j"
  shows "i = j"
proof -
  have "i = decimal_value (py_str i)"
    by (simp only: decimal_value_py_str)
  also have "\<dots> = decimal_value (py_str j)"
    by (simp only: assms)
  also have "\<dots> = j"
    by (simp only: decimal_value_py_str)
  finally show ?thesis .
qed

lemma is_decimal_string_py_str: "is_decimal_string (py_str i)"
proof (cases "i < 0")
  case True
  then show ?thesis
    using str_nat_digits [of "nat (- i)"] by (simp add: py_str_def is_decimal_string_def)
next
  case False
  obtain c cs where e: "str_nat (nat i) = c # cs" and c: "c \<noteq> CHR ''-''"
    using str_nat_no_sign by blast
  show ?thesis
    using False c str_nat_digits [of "nat i"]
    by (simp add: py_str_def is_decimal_string_def e)
qed

subsection \<open>The price implied by the two amounts\<close>


















subsection \<open>Signing\<close>

lemma randint_range:
  assumes "a \<le> b"
  shows "a \<le> randint a b r" and "randint a b r \<le> b"
proof -
  have pos: "0 < nat (b + 1 - a)"
    using assms by simp
  have "r mod nat (b + 1 - a) < nat (b + 1 - a)"
    using pos by (rule mod_less_divisor)
  then have "int (r mod nat (b + 1 - a)) < b + 1 - a"
    using assms by linarith
  then show "randint a b r \<le> b"
    by (simp add: randint_def)
  show "a \<le> randint a b r"
    by (simp add: randint_def)
qed

lemma build_order_message_SomeD:
  assumes "build_order_message lib self r order = Some m"
  shows "msg_salt m = randint 1 (2 ^ 40 - 1) r"
    and "to_checksum_address lib (maker order) = Some (msg_maker m)"
    and "to_checksum_address lib (address self) = Some (msg_signer m)"
    and "to_checksum_address lib zero_address = Some (msg_taker m)"
    and "int_of_str lib (token_id order) = Some (msg_tokenId m)"
    and "int_of_str lib (maker_amount order) = Some (msg_makerAmount m)"
    and "int_of_str lib (taker_amount order) = Some (msg_takerAmount m)"
    and "msg_expiration m = 0"
    and "msg_nonce m = nonce order"
    and "msg_feeRateBps m = fee_rate_bps order"
    and "msg_side m = side_value order"
    and "msg_signatureType m = signature_type order"
  using assms
  by (auto simp: build_order_message_def Let_def bind_eq_Some_conv)

lemma sign_order_InrD:
  assumes "sign_order lib self r order = Inr p"
  shows "\<exists>m signable sg. build_order_message lib self r order = Some m \<and>
           encode_typed_data lib ORDER_DOMAIN ORDER_TYPES m = Some signable \<and>
           sign_message_hex lib (wallet self) signable = Some sg \<and>
           p = order_payload m order sg"
  using assms
  by (auto simp: sign_order_def bind_eq_Some_conv split: option.splits)

lemma order_payload_fields:
  "int_field (order_payload m order sg) ''salt'' (msg_salt m)"
  "order_field (order_payload m order sg) ''maker'' = Some (JStr (msg_maker m))"
  "order_field (order_payload m order sg) ''signer'' = Some (JStr (msg_signer m))"
  "order_field (order_payload m order sg) ''taker'' = Some (JStr (msg_taker m))"
  "decimal_field (order_payload m order sg) ''tokenId'' (msg_tokenId m)"
  "decimal_field (order_payload m order sg) ''makerAmount'' (msg_makerAmount m)"
  "decimal_field (order_payload m order sg) ''takerAmount'' (msg_takerAmount m)"
  "decimal_field (order_payload m order sg) ''expiration'' (msg_expiration m)"
  "decimal_field (order_payload m order sg) ''nonce'' (msg_nonce m)"
  "decimal_field (order_payload m order sg) ''feeRateBps'' (msg_feeRateBps m)"
  "order_field (order_payload m order sg) ''side'' = Some (JStr (side order))"
  "int_field (order_payload m order sg) ''signatureType'' (msg_signatureType m)"
  "order_field (order_payload m order sg) ''signature'' = Some (JStr (''0x'' @ sg))"
  by (simp_all add: order_field_def order_payload_def int_field_def decimal_field_def
        is_decimal_string_py_str decimal_value_py_str)

lemma post_init_InrD:
  assumes "post_init a = Inr ord"
  shows "upper (arg_side a) \<in> {''BUY'', ''SELL''}"
    and "0 < arg_price a" and "arg_price a \<le> 1" and "0 < arg_size a"
  using assms by (auto simp: post_init_def Let_def split: if_splits)

lemma post_init_side:
  assumes "post_init a = Inr ord"
  shows "side ord \<in> {''BUY'', ''SELL''}"
    and "side_value ord = (if side ord = ''BUY'' then 0 else 1)"
    and "side ord = upper (arg_side a)"
    and "order_type ord = arg_order_type a"
    and "signature_type ord = arg_signature_type a"
  using assms post_init_InrD [OF assms]
  by (auto simp: post_init_ok)

text \<open>
  Claim C6. Whenever \<^verbatim>\<open>sign_order\<close> returns, the struct that was signed has the zero address
  as taker (the library's checksum form of the zero address being the zero address),
  expiration 0, as signer the checksum form of the address derived from the signer's
  private key, whatever the maker is, and a salt drawn for this call that lies between
  1 and \<open>2^40 - 1\<close>.
\<close>

theorem sign_order_struct_fields:
  assumes "OrderSigner_init lib key = Inr self"
    and "sign_order lib self r order = Inr p"
    and "to_checksum_address lib zero_address = Some zero_address"
  shows "\<exists>m signable sg w.
           build_order_message lib self r order = Some m \<and>
           encode_typed_data lib ORDER_DOMAIN ORDER_TYPES m = Some signable \<and>
           sign_message_hex lib (wallet self) signable = Some sg \<and>
           p = order_payload m order sg \<and>
           msg_taker m = zero_address \<and>
           msg_expiration m = 0 \<and>
           wallet self = w \<and> address self = wallet_address lib w \<and>
           to_checksum_address lib (wallet_address lib w) = Some (msg_signer m) \<and>
           msg_salt m = randint 1 (2 ^ 40 - 1) r \<and>
           1 \<le> msg_salt m \<and> msg_salt m \<le> 2 ^ 40 - 1"
proof -
  from sign_order_InrD [OF assms(2)] obtain m signable sg
    where m: "build_order_message lib self r order = Some m"
      and e: "encode_typed_data lib ORDER_DOMAIN ORDER_TYPES m = Some signable"
      and s: "sign_message_hex lib (wallet self) signable = Some sg"
      and p: "p = order_payload m order sg"
    by blast
  note f = build_order_message_SomeD [OF m]
  have addr: "address self = wallet_address lib (wallet self)"
    using assms(1) by (auto simp: OrderSigner_init_def Let_def split: sum.splits)
  have tk: "msg_taker m = zero_address"
    using f(4) assms(3) by simp
  have sg: "to_checksum_address lib (wallet_address lib (wallet self)) = Some (msg_signer m)"
    using f(3) addr by simp
  have salt: "1 \<le> msg_salt m" "msg_salt m \<le> 2 ^ 40 - 1"
    using randint_range [of 1 "2 ^ 40 - 1" r] by (simp_all add: f(1))
  from m e s p tk f(8) addr sg f(1) salt show ?thesis
    by blast
qed

text \<open>
  Claim C7. In the payload that \<^verbatim>\<open>sign_order\<close> returns for a constructed Order, tokenId,
  makerAmount, takerAmount, expiration, nonce and feeRateBps are strings spelling in
  decimal the integers that were signed, salt and signatureType are integers, and side
  is the string BUY or SELL, while the signed struct holds the side code 0 or 1.
\<close>

theorem sign_order_payload_encoding:
  assumes "post_init a = Inr order"
    and "sign_order lib self r order = Inr p"
  shows "\<exists>m. build_order_message lib self r order = Some m \<and>
           decimal_field p ''tokenId'' (msg_tokenId m) \<and>
           decimal_field p ''makerAmount'' (msg_makerAmount m) \<and>
           decimal_field p ''takerAmount'' (msg_takerAmount m) \<and>
           decimal_field p ''expiration'' (msg_expiration m) \<and>
           decimal_field p ''nonce'' (msg_nonce m) \<and>
           decimal_field p ''feeRateBps'' (msg_feeRateBps m) \<and>
           int_field p ''salt'' (msg_salt m) \<and>
           int_field p ''signatureType'' (msg_signatureType m) \<and>
           order_field p ''side'' = Some (JStr (side order)) \<and>
           side order \<in> {''BUY'', ''SELL''} \<and>
           msg_side m = (if side order = ''BUY'' then 0 else 1)"
proof -
  from sign_order_InrD [OF assms(2)] obtain m signable sg
    where m: "build_order_message lib self r order = Some m"
      and e: "encode_typed_data lib ORDER_DOMAIN ORDER_TYPES m = Some signable"
      and p: "p = order_payload m order sg"
    by blast
  have sd: "msg_side m = (if side order = ''BUY'' then 0 else 1)"
    using build_order_message_SomeD(11) [OF m] post_init_side(2) [OF assms(1)] by simp
  show ?thesis
    using m sd post_init_side(1) [OF assms(1)]
    unfolding p by (intro exI [where x = m] conjI order_payload_fields)
qed


lemma hex_not_x: "is_hex_digit c \<Longrightarrow> c \<noteq> CHR ''x''"
  by (auto simp: is_hex_digit_def)

lemma hex_key_no_prefix:
  assumes "length k = 64" and "list_all is_hex_digit k"
  shows "\<not> startswith k ''0x''"
proof -
  obtain c d ks where k: "k = c # d # ks"
    using assms(1) by (cases k; cases "tl k") auto
  have "d \<noteq> CHR ''x''"
    using assms(2) by (simp add: k hex_not_x)
  then show ?thesis
    by (simp add: startswith_def k)
qed

lemma OrderSigner_init_prefix:
  "OrderSigner_init lib (''0x'' @ k) =
     (case from_key lib (''0x'' @ k) of
        Inl e \<Rightarrow> Inl (InvalidPrivateKey e)
      | Inr w \<Rightarrow> Inr \<lparr> wallet = w, address = wallet_address lib w \<rparr>)"
  by (simp add: OrderSigner_init_def startswith_def)

text \<open>A key that does not start with 0x may be given with or without the prefix.\<close>

lemma OrderSigner_init_unprefixed:
  assumes "\<not> startswith k ''0x''"
  shows "OrderSigner_init lib (''0x'' @ k) = OrderSigner_init lib k"
proof -
  have n: "startswith k ''0x'' = False"
    using assms by simp
  have "OrderSigner_init lib k =
     (case from_key lib (''0x'' @ k) of
        Inl e \<Rightarrow> Inl (InvalidPrivateKey e)
      | Inr w \<Rightarrow> Inr \<lparr> wallet = w, address = wallet_address lib w \<rparr>)"
    by (simp only: OrderSigner_init_def n if_False Let_def)
  then show ?thesis
    by (simp only: OrderSigner_init_prefix)
qed

text \<open>
  Claim C10. For a key of 64 hexadecimal characters, constructing the signer from the key
  and from the key with 0x in front gives the same result: the same wallet and address
  when the library accepts the key, the same error when it does not.
\<close>

theorem OrderSigner_init_prefix_insensitive:
  assumes "length k = 64" and "list_all is_hex_digit k"
  shows "OrderSigner_init lib (''0x'' @ k) = OrderSigner_init lib k"
  using hex_key_no_prefix [OF assms] by (rule OrderSigner_init_unprefixed)

subsection \<open>The signer on the sample inputs\<close>

lemma scenario3_amounts:
  "base_amounts ''SELL'' ''FOK'' (py_round_nd (11 / 100) 2) (13889 / 2500) = (5560000, 611600)"
  by code_simp

lemma scenario3_price: "py_round_nd (11 / 100) 2 = 11 / 100"
  by code_simp

lemma py_str_5560000: "py_str 5560000 = ''5560000''"
  by (simp add: py_str_def str_nat.simps digit_char_def)

lemma py_str_611600: "py_str 611600 = ''611600''"
  by (simp add: py_str_def str_nat.simps digit_char_def)

lemma scenario3_order:
  "post_init (example_args ''SELL'' ''FOK'' (11 / 100) (13889 / 2500)) = Inr sample_order"
proof -
  have v: "valid_input (example_args ''SELL'' ''FOK'' (11 / 100) (13889 / 2500))"
    by (simp add: valid_example)
  show ?thesis
    unfolding post_init_valid [OF v] example_args_sel scenario3_amounts
    by (simp add: example_args_def example_order_def sample_order_def scenario3_price
          py_str_5560000 py_str_611600)
qed

lemma sample_init: "OrderSigner_init sample_library sample_key = Inr sample_signer"
  by (simp add: OrderSigner_init_def sample_library_def sample_key_def sample_signer_def
        startswith_def is_hex_digit_def)

lemma sample_checksum_zero: "to_checksum_address sample_library zero_address = Some zero_address"
  by (simp add: sample_library_def zero_address_def)

lemma sample_built:
  "build_order_message sample_library sample_signer 123456789 sample_order = Some sample_message"
  by (simp add: build_order_message_def sample_library_def sample_signer_def sample_order_def
        sample_message_def example_order_def zero_address_def randint_def is_digit_def
        decimal_value_def nat_of_digits_def digit_value_def)

lemma sample_signed:
  "sign_order sample_library sample_signer 123456789 sample_order =
     Inr (order_payload sample_message sample_order ''1b'')"
  by (simp add: sign_order_def sample_built) (simp add: sample_library_def)

theorem sign_order_struct_fields_witness:
  "OrderSigner_init sample_library sample_key = Inr sample_signer \<and>
   sign_order sample_library sample_signer 123456789 sample_order =
     Inr (order_payload sample_message sample_order ''1b'') \<and>
   to_checksum_address sample_library zero_address = Some zero_address \<and>
   (\<exists>m signable sg w.
      build_order_message sample_library sample_signer 123456789 sample_order = Some m \<and>
      encode_typed_data sample_library ORDER_DOMAIN ORDER_TYPES m = Some signable \<and>
      sign_message_hex sample_library (wallet sample_signer) signable = Some sg \<and>
      order_payload sample_message sample_order ''1b'' = order_payload m sample_order sg \<and>
      msg_taker m = zero_address \<and>
      msg_expiration m = 0 \<and>
      wallet sample_signer = w \<and> address sample_signer = wallet_address sample_library w \<and>
      to_checksum_address sample_library (wallet_address sample_library w) = Some (msg_signer m) \<and>
      msg_salt m = randint 1 (2 ^ 40 - 1) 123456789 \<and>
      1 \<le> msg_salt m \<and> msg_salt m \<le> 2 ^ 40 - 1)"
  using sign_order_struct_fields [OF sample_init sample_signed sample_checksum_zero]
    sample_init sample_signed sample_checksum_zero
  by blast

theorem sign_order_payload_encoding_witness:
  "post_init (example_args ''SELL'' ''FOK'' (11 / 100) (13889 / 2500)) = Inr sample_order \<and>
   sign_order sample_library sample_signer 123456789 sample_order =
     Inr (order_payload sample_message sample_order ''1b'') \<and>
   decimal_field (order_payload sample_message sample_order ''1b'') ''tokenId''
     17677295341284404301684190429353870897397456800894496393305525348207706127476 \<and>
   decimal_field (order_payload sample_message sample_order ''1b'') ''makerAmount'' 5560000 \<and>
   decimal_field (order_payload sample_message sample_order ''1b'') ''takerAmount'' 611600 \<and>
   decimal_field (order_payload sample_message sample_order ''1b'') ''expiration'' 0 \<and>
   decimal_field (order_payload sample_message sample_order ''1b'') ''nonce'' 0 \<and>
   decimal_field (order_payload sample_message sample_order ''1b'') ''feeRateBps'' 1000 \<and>
   int_field (order_payload sample_message sample_order ''1b'') ''salt'' 123456790 \<and>
   int_field (order_payload sample_message sample_order ''1b'') ''signatureType'' 1 \<and>
   order_field (order_payload sample_message sample_order ''1b'') ''side'' = Some (JStr ''SELL'') \<and>
   msg_side sample_message = 1"
proof -
  from sign_order_payload_encoding [OF scenario3_order sample_signed]
  have "decimal_field (order_payload sample_message sample_order ''1b'') ''tokenId''
          (msg_tokenId sample_message) \<and>
        decimal_field (order_payload sample_message sample_order ''1b'') ''makerAmount''
          (msg_makerAmount sample_message) \<and>
        decimal_field (order_payload sample_message sample_order ''1b'') ''takerAmount''
          (msg_takerAmount sample_message) \<and>
        decimal_field (order_payload sample_message sample_order ''1b'') ''expiration''
          (msg_expiration sample_message) \<and>
        decimal_field (order_payload sample_message sample_order ''1b'') ''nonce''
          (msg_nonce sample_message) \<and>
        decimal_field (order_payload sample_message sample_order ''1b'') ''feeRateBps''
          (msg_feeRateBps sample_message) \<and>
        int_field (order_payload sample_message sample_order ''1b'') ''salt''
          (msg_salt sample_message) \<and>
        int_field (order_payload sample_message sample_order ''1b'') ''signatureType''
          (msg_signatureType sample_message) \<and>
        order_field (order_payload sample_message sample_order ''1b'') ''side'' =
          Some (JStr (side sample_order)) \<and>
        msg_side sample_message = (if side sample_order = ''BUY'' then 0 else 1)"
    by (auto simp: sample_built)
  moreover have "side sample_order = ''SELL''"
    by (simp add: sample_order_def example_order_def)
  moreover have "msg_tokenId sample_message =
      17677295341284404301684190429353870897397456800894496393305525348207706127476"
    "msg_makerAmount sample_message = 5560000" "msg_takerAmount sample_message = 611600"
    "msg_expiration sample_message = 0" "msg_nonce sample_message = 0"
    "msg_feeRateBps sample_message = 1000" "msg_salt sample_message = 123456790"
    "msg_signatureType sample_message = 1"
    by (simp_all add: sample_message_def)
  ultimately show ?thesis
    using scenario3_order sample_signed by simp
qed










theorem OrderSigner_init_prefix_insensitive_witness:
  "length sample_key = 64 \<and> list_all is_hex_digit sample_key \<and>
   OrderSigner_init sample_library (''0x'' @ sample_key) = Inr sample_signer \<and>
   OrderSigner_init sample_library sample_key = Inr sample_signer"
proof -
  have l: "length sample_key = 64" and x: "list_all is_hex_digit sample_key"
    by (simp_all add: sample_key_def is_hex_digit_def)
  show ?thesis
    using OrderSigner_init_prefix_insensitive [OF l x, of sample_library] l x
    by (simp add: sample_init)
qed

end
